theory Spec2Isabelle
  imports Main "HOL-Library.Word"
begin

section \<open>Data model of the chat client (src/frontend/src/App.tsx)\<close>

text \<open>
  The file holds two variants of the same React component. The first variant (lines 1-328)
  refetches the thread after a send and keeps an error string; the second variant
  (lines 329-741) appends a locally built user message and the reply to the thread.
  Definitions that end in \<open>1\<close> embed the first variant, those that end in \<open>2\<close> the
  second; a definition with no digit embeds code that is textually the same in both
  (apart from the base address of the backend).

  A JavaScript string is a sequence of UTF-16 code units: \<open>trim\<close> and \<open>substring\<close>
  count code units, so the model keeps them as 16-bit words.
\<close>

type_synonym jsstring = "16 word list"

definition lit :: "string \<Rightarrow> jsstring" where
  "lit cs = map (\<lambda>c. of_nat (of_char c)) cs"

text \<open>Template literals print a number in decimal; only HTTP status codes are printed.\<close>

fun decimal :: "nat \<Rightarrow> jsstring" where
  "decimal n = (if n < 10 then [of_nat (48 + n)]
                else decimal (n div 10) @ [of_nat (48 + n mod 10)])"

declare decimal.simps [simp del]

text \<open>
  \<open>String.prototype.trim\<close> removes white space and line terminators from both ends.
  The set is the one of ECMAScript: TAB, LF, VT, FF, CR, SP, NBSP, U+1680, U+2000 to U+200A,
  U+2028, U+2029, U+202F, U+205F, U+3000 and U+FEFF.
\<close>

definition is_ws :: "16 word \<Rightarrow> bool" where
  "is_ws c = (c = 0x9 \<or> c = 0xA \<or> c = 0xB \<or> c = 0xC \<or> c = 0xD \<or> c = 0x20 \<or> c = 0xA0
     \<or> c = 0x1680 \<or> (0x2000 \<le> c \<and> c \<le> 0x200A) \<or> c = 0x2028 \<or> c = 0x2029
     \<or> c = 0x202F \<or> c = 0x205F \<or> c = 0x3000 \<or> c = 0xFEFF)"

definition trim :: "jsstring \<Rightarrow> jsstring" where
  "trim s = rev (dropWhile is_ws (rev (dropWhile is_ws s)))"

text \<open>Lines 7-19 and 332-344: the two record types. Identifiers are JavaScript numbers
  that hold integers.\<close>

record Conversation =
  conv_id :: int
  title :: jsstring
  conv_created_at :: jsstring

datatype role = User | Assistant

record Message =
  msg_id :: int
  role :: role
  content :: jsstring
  conversation_id :: int
  created_at :: jsstring

text \<open>Lines 349-353: the state of the second variant. Lines 25-31: the first variant
  has the same five cells and two more.\<close>

record app_state =
  messages :: "Message list"
  input :: jsstring
  conversations :: "Conversation list"
  currentConversation :: "Conversation option"
  isLoading :: bool

record app_state1 = app_state +
  pendingUserInput :: jsstring
  error :: jsstring

section \<open>The backend as seen by the client\<close>

text \<open>
  A thrown JavaScript error carries a message. \<open>fetch\<close> either rejects (no response) or
  resolves to a response with a status; reading the body as text or as JSON can reject
  as well. The parsed JSON has the type the code declares for it.

  The record below is everything a handler reads from outside the component: the answer
  of the backend to each of the four requests, the two readings of the clock that the
  second variant takes (\<open>Date.now()\<close> and \<open>new Date().toISOString()\<close>, once before the
  \<open>try\<close> block and once in the \<open>catch\<close> block), how late a request that is not
  awaited settles, and the thread that an earlier selection, still pending when a send
  starts, writes while that send waits (\<open>None\<close> when no selection is pending or its
  request fails).
\<close>

datatype js_error = JsError (message: jsstring)

datatype 'a response =
  Response (ok: bool) (status: nat) (text_body: "js_error + jsstring") (json_body: "js_error + 'a")

record backend =
  get_conversations :: "js_error + Conversation list response"
  get_messages :: "int \<Rightarrow> js_error + Message list response"
  post_conversation :: "jsstring \<Rightarrow> js_error + Conversation response"
  post_message :: "int \<Rightarrow> jsstring \<Rightarrow> js_error + Message response"
  date_now :: int
  date_iso :: jsstring
  date_now_catch :: int
  date_iso_catch :: jsstring
  refresh_delay :: nat
  pending_selection :: "Message list option"

text \<open>
  What a handler does that can be seen from outside is a list of events: \<open>Sent r\<close> when
  \<open>fetch\<close> is called for the request \<open>r\<close>, \<open>Settled r\<close> when the request is over (its
  body has been read, or it has failed), and \<open>SetLoading b\<close> when \<open>setIsLoading(b)\<close> is
  called.
\<close>

datatype request =
  ListConversations
  | GetMessages int
  | PostConversation jsstring
  | PostMessage int jsstring

datatype event = Sent request | Settled request | SetLoading bool

text \<open>
  A call of an async function that is not awaited runs up to its first \<open>await\<close>, so its
  request is sent at once; the caller goes on, and the rest of the call happens after at
  least the next event of the caller. How much later is up to the network: the backend
  record gives the number of further events of the caller that come first.
\<close>

fun unawaited :: "nat \<Rightarrow> event list \<Rightarrow> event list \<Rightarrow> event list" where
  "unawaited k [] rest = rest"
| "unawaited k (e # es) rest = e # take (Suc k) rest @ es @ drop (Suc k) rest"

text \<open>The largest number of requests in flight at any moment of a list of events,
  starting with \<open>n\<close> in flight.\<close>

fun peak :: "nat \<Rightarrow> event list \<Rightarrow> nat" where
  "peak n [] = n"
| "peak n (Sent r # es) = peak (Suc n) es"
| "peak n (Settled r # es) = max n (peak (n - 1) es)"
| "peak n (SetLoading b # es) = peak n es"

definition is_refresh :: "event \<Rightarrow> bool" where
  "is_refresh e = (e = Sent ListConversations \<or> e = Settled ListConversations)"

section \<open>The API client\<close>

text \<open>Lines 58-66 and 484-492. Every failure is caught and only logged.\<close>

definition fetchConversations ::
  "backend \<Rightarrow> 'a app_state_scheme \<Rightarrow> 'a app_state_scheme \<times> event list" where
  "fetchConversations env s =
     ((case get_conversations env of
         Inl e \<Rightarrow> s
       | Inr response \<Rightarrow>
           (case json_body response of
              Inl e \<Rightarrow> s
            | Inr data \<Rightarrow> s\<lparr>conversations := data\<rparr>)),
      [Sent ListConversations, Settled ListConversations])"

text \<open>Lines 92-101 and 498-507. The status is not looked at.\<close>

definition createConversation ::
  "backend \<Rightarrow> jsstring \<Rightarrow> (js_error + Conversation) \<times> event list" where
  "createConversation env t =
     ((case post_conversation env t of
         Inl e \<Rightarrow> Inl e
       | Inr response \<Rightarrow> json_body response),
      [Sent (PostConversation t), Settled (PostConversation t)])"

text \<open>Lines 103-124 and 509-530.\<close>

definition createMessage ::
  "backend \<Rightarrow> int \<Rightarrow> jsstring \<Rightarrow> (js_error + Message) \<times> event list" where
  "createMessage env conversationId c =
     ((case post_message env conversationId c of
         Inl e \<Rightarrow> Inl e
       | Inr response \<Rightarrow>
           if \<not> ok response then
             (case text_body response of
                Inl e \<Rightarrow> Inl e
              | Inr errorText \<Rightarrow>
                  Inl (JsError (lit ''Failed to send message: '' @ decimal (status response)
                                @ lit '' - '' @ errorText)))
           else json_body response),
      [Sent (PostMessage conversationId c), Settled (PostMessage conversationId c)])"

text \<open>Lines 68-86, first variant only. The \<open>throw\<close> of line 74 is caught at line 80, so
  the call itself never throws.\<close>

definition fetchMessages :: "backend \<Rightarrow> int \<Rightarrow> app_state1 \<Rightarrow> app_state1 \<times> event list" where
  "fetchMessages env conversationId s =
     (let s1 = s\<lparr>isLoading := True\<rparr>;
          failed = s1\<lparr>error := lit ''Failed to load messages''\<rparr>;
          s2 = (case get_messages env conversationId of
                  Inl e \<Rightarrow> failed
                | Inr response \<Rightarrow>
                    if \<not> ok response then failed
                    else (case json_body response of
                            Inl e \<Rightarrow> failed
                          | Inr fetchedMessages \<Rightarrow>
                              s1\<lparr>messages := fetchedMessages, error := []\<rparr>))
      in (s2\<lparr>isLoading := False\<rparr>,
          [SetLoading True, Sent (GetMessages conversationId),
           Settled (GetMessages conversationId), SetLoading False]))"

section \<open>The handlers\<close>

text \<open>Lines 129-139. \<open>fetchMessages\<close> never throws, so the handler of line 135 is dead.\<close>

definition handleConversationClick1 ::
  "backend \<Rightarrow> int \<Rightarrow> app_state1 \<Rightarrow> app_state1 \<times> event list" where
  "handleConversationClick1 env conversationId s =
     (let conversation = find (\<lambda>c. conv_id c = conversationId) (conversations s)
      in fetchMessages env conversationId
           (s\<lparr>currentConversation := conversation, error := []\<rparr>))"

text \<open>Lines 535-549. The status of the response is never read.\<close>

definition handleConversationClick2 ::
  "backend \<Rightarrow> int \<Rightarrow> app_state \<Rightarrow> app_state \<times> event list" where
  "handleConversationClick2 env conversationId s =
     (let s1 = s\<lparr>currentConversation :=
                   find (\<lambda>c. conv_id c = conversationId) (conversations s)\<rparr>
      in ((case get_messages env conversationId of
             Inl e \<Rightarrow> s1
           | Inr response \<Rightarrow>
               (case json_body response of
                  Inl e \<Rightarrow> s1
                | Inr messagesData \<Rightarrow> s1\<lparr>messages := messagesData\<rparr>)),
          [Sent (GetMessages conversationId), Settled (GetMessages conversationId)]))"

text \<open>Lines 142-146 and 552-556.\<close>

definition handleNewChat :: "'a app_state_scheme \<Rightarrow> 'a app_state_scheme" where
  "handleNewChat s = s\<lparr>currentConversation := None, messages := [], input := []\<rparr>"

text \<open>Lines 170-180: the part of the \<open>try\<close> block of the first variant after the
  conversation is known.\<close>

definition handleSend1_post ::
  "backend \<Rightarrow> int \<Rightarrow> jsstring \<Rightarrow> app_state1 \<Rightarrow> (js_error + unit) \<times> app_state1 \<times> event list" where
  "handleSend1_post env conversationId userInput s =
     (case createMessage env conversationId userInput of
        (Inl e, ev) \<Rightarrow> (Inl e, s, ev)
      | (Inr aiResponse, ev) \<Rightarrow>
          (case fetchMessages env conversationId s of
             (s1, ev1) \<Rightarrow> (Inr (), s1\<lparr>pendingUserInput := []\<rparr>, ev @ ev1)))"

text \<open>
  Lines 159-181: the \<open>try\<close> block. \<open>fetchConversations\<close> is called without \<open>await\<close>
  (line 167); it writes only the conversation list, which the handler neither reads nor
  writes afterwards, so its effect on the state is applied where it is called.
\<close>

definition handleSend1_try ::
  "backend \<Rightarrow> jsstring \<Rightarrow> Conversation option \<Rightarrow> app_state1
     \<Rightarrow> (js_error + unit) \<times> app_state1 \<times> event list" where
  "handleSend1_try env userInput cur s =
     (case cur of
        Some c \<Rightarrow> handleSend1_post env (conv_id c) userInput s
      | None \<Rightarrow>
          (case createConversation env (take 50 userInput) of
             (Inl e, ev) \<Rightarrow> (Inl e, s, ev)
           | (Inr newConversation, ev) \<Rightarrow>
               (case fetchConversations env (s\<lparr>currentConversation := Some newConversation\<rparr>) of
                  (s2, ev2) \<Rightarrow>
                    (case handleSend1_post env (conv_id newConversation) userInput s2 of
                       (res, s3, ev3) \<Rightarrow>
                         (res, s3, ev @ unawaited (refresh_delay env) ev2 ev3)))))"

text \<open>Lines 151-157: what the first variant does before the \<open>try\<close> block.\<close>

definition handleSend1_begin :: "app_state1 \<Rightarrow> app_state1" where
  "handleSend1_begin s =
     s\<lparr>input := [], isLoading := True, error := [], pendingUserInput := input s\<rparr>"

text \<open>Lines 148-195.\<close>

definition handleSend1 :: "backend \<Rightarrow> app_state1 \<Rightarrow> app_state1 \<times> event list" where
  "handleSend1 env s =
     (if trim (input s) = [] \<or> isLoading s then (s, [])
      else
        (let userInput = input s in
         case handleSend1_try env userInput (currentConversation s) (handleSend1_begin s) of
           (res, s1, ev) \<Rightarrow>
             (let s2 = (case res of
                          Inl e \<Rightarrow>
                            s1\<lparr>error := lit ''Failed to send message: ''
                                         @ (if message e = [] then lit ''Please try again''
                                            else message e),
                               input := userInput\<rparr>
                        | Inr u \<Rightarrow> s1)
              in (s2\<lparr>isLoading := False, pendingUserInput := []\<rparr>,
                  SetLoading True # ev @ [SetLoading False]))))"

text \<open>Lines 569 and 612: \<open>currentConversation?.id || 0\<close>.\<close>

definition id_or_zero :: "Conversation option \<Rightarrow> int" where
  "id_or_zero cur =
     (case cur of None \<Rightarrow> 0 | Some c \<Rightarrow> if conv_id c = 0 then 0 else conv_id c)"

text \<open>Lines 565-571.\<close>

definition tempUserMessage :: "backend \<Rightarrow> jsstring \<Rightarrow> Conversation option \<Rightarrow> Message" where
  "tempUserMessage env userInput cur =
     \<lparr>msg_id = date_now env, role = User, content = userInput,
      conversation_id = id_or_zero cur, created_at = date_iso env\<rparr>"

text \<open>Lines 608-614.\<close>

definition errorMessage :: "backend \<Rightarrow> js_error \<Rightarrow> Conversation option \<Rightarrow> Message" where
  "errorMessage env e cur =
     \<lparr>msg_id = date_now_catch env + 1, role = Assistant,
      content = lit ''Error: ''
                @ (if message e = [] then lit ''Could not get response from AI''
                   else message e),
      conversation_id = id_or_zero cur, created_at = date_iso_catch env\<rparr>"

text \<open>Lines 590-603: the part of the \<open>try\<close> block of the second variant after the
  conversation is known.\<close>

definition handleSend2_post ::
  "backend \<Rightarrow> int \<Rightarrow> jsstring \<Rightarrow> app_state \<Rightarrow> (js_error + unit) \<times> app_state \<times> event list" where
  "handleSend2_post env conversationId userInput s =
     (case createMessage env conversationId userInput of
        (Inl e, ev) \<Rightarrow> (Inl e, s, ev)
      | (Inr aiResponse, ev) \<Rightarrow> (Inr (), s\<lparr>messages := messages s @ [aiResponse]\<rparr>, ev))"

text \<open>Lines 576-604: the \<open>try\<close> block; line 587 is the call without \<open>await\<close>.\<close>

definition handleSend2_try ::
  "backend \<Rightarrow> jsstring \<Rightarrow> Conversation option \<Rightarrow> app_state
     \<Rightarrow> (js_error + unit) \<times> app_state \<times> event list" where
  "handleSend2_try env userInput cur s =
     (case cur of
        Some c \<Rightarrow> handleSend2_post env (conv_id c) userInput s
      | None \<Rightarrow>
          (case createConversation env (lit ''Conversation'') of
             (Inl e, ev) \<Rightarrow> (Inl e, s, ev)
           | (Inr newConversation, ev) \<Rightarrow>
               (case fetchConversations env (s\<lparr>currentConversation := Some newConversation\<rparr>) of
                  (s2, ev2) \<Rightarrow>
                    (case handleSend2_post env (conv_id newConversation) userInput s2 of
                       (res, s3, ev3) \<Rightarrow>
                         (res, s3, ev @ unawaited (refresh_delay env) ev2 ev3)))))"

text \<open>Lines 561-574: what the second variant does before the \<open>try\<close> block.\<close>

definition handleSend2_begin :: "backend \<Rightarrow> app_state \<Rightarrow> app_state" where
  "handleSend2_begin env s =
     s\<lparr>input := [], isLoading := True,
       messages := messages s @ [tempUserMessage env (input s) (currentConversation s)]\<rparr>"

text \<open>
  Lines 535-549 never set the loading flag, so in the second variant a send can start while
  the request of an earlier selection is still pending. When its answer arrives while the
  send waits, line 545 replaces the thread: after the write of line 574 and before the
  write of line 603 or 615, since the send waits nowhere else. Nothing reads the thread in
  between, so the replacement is applied right after line 574. In the first variant line 70
  sets the loading flag as soon as a conversation is clicked, and the guard of line 149
  keeps a send from starting before the selection is over.
\<close>

definition land_selection :: "backend \<Rightarrow> app_state \<Rightarrow> app_state" where
  "land_selection env s =
     (case pending_selection env of
        None \<Rightarrow> s
      | Some messagesData \<Rightarrow> s\<lparr>messages := messagesData\<rparr>)"

text \<open>Lines 558-619.\<close>

definition handleSend2 :: "backend \<Rightarrow> app_state \<Rightarrow> app_state \<times> event list" where
  "handleSend2 env s =
     (if trim (input s) = [] \<or> isLoading s then (s, [])
      else
        (let userInput = input s in
         case handleSend2_try env userInput (currentConversation s)
                (land_selection env (handleSend2_begin env s)) of
           (res, s1, ev) \<Rightarrow>
             (let s2 = (case res of
                          Inl e \<Rightarrow>
                            s1\<lparr>messages := messages s1
                                 @ [errorMessage env e (currentConversation s)]\<rparr>
                        | Inr u \<Rightarrow> s1)
              in (s2\<lparr>isLoading := False\<rparr>, SetLoading True # ev @ [SetLoading False]))))"

text \<open>Lines 196-201 and 621-626. The first argument is \<open>e.key\<close>, the second
  \<open>e.shiftKey\<close>.\<close>

definition handleKeyDown1 ::
  "backend \<Rightarrow> jsstring \<Rightarrow> bool \<Rightarrow> app_state1 \<Rightarrow> app_state1 \<times> event list" where
  "handleKeyDown1 env key shiftKey s =
     (if key = lit ''Enter'' \<and> \<not> shiftKey \<and> \<not> isLoading s then handleSend1 env s
      else (s, []))"

definition handleKeyDown2 ::
  "backend \<Rightarrow> jsstring \<Rightarrow> bool \<Rightarrow> app_state \<Rightarrow> app_state \<times> event list" where
  "handleKeyDown2 env key shiftKey s =
     (if key = lit ''Enter'' \<and> \<not> shiftKey \<and> \<not> isLoading s then handleSend2 env s
      else (s, []))"

section \<open>Notions used to state the properties\<close>

text \<open>The titles of the conversations a handler asks the backend to create, in order.\<close>

definition created_titles :: "event list \<Rightarrow> jsstring list" where
  "created_titles evs =
     concat (map (\<lambda>e. case e of Sent (PostConversation t) \<Rightarrow> [t] | _ \<Rightarrow> []) evs)"

text \<open>
  The conversation a send posts its message to: the selected one, or else the one created
  with the given title (lines 160-168 and 577-588); none when that creation throws.
\<close>

definition send_target :: "backend \<Rightarrow> jsstring \<Rightarrow> Conversation option \<Rightarrow> Conversation option" where
  "send_target env t cur =
     (case cur of
        Some c \<Rightarrow> Some c
      | None \<Rightarrow> (case fst (createConversation env t) of Inl e \<Rightarrow> None | Inr nc \<Rightarrow> Some nc))"

text \<open>A send fails when \<open>createConversation\<close> throws (the request is rejected or the body
  does not parse; the status is not read) or \<open>createMessage\<close> throws (the request is
  rejected, the status is not successful, or the body does not parse).\<close>

definition send_fails :: "backend \<Rightarrow> jsstring \<Rightarrow> Conversation option \<Rightarrow> jsstring \<Rightarrow> bool" where
  "send_fails env t cur userInput =
     (case send_target env t cur of
        None \<Rightarrow> True
      | Some c \<Rightarrow> isl (fst (createMessage env (conv_id c) userInput)))"

text \<open>What \<open>fetchMessages\<close> of the first variant accepts as the thread of a conversation
  (lines 71-78): a response with a successful status whose body parses.\<close>

definition accepted_thread :: "backend \<Rightarrow> int \<Rightarrow> Message list option" where
  "accepted_thread env conversationId =
     (case get_messages env conversationId of
        Inl e \<Rightarrow> None
      | Inr response \<Rightarrow>
          if \<not> ok response then None
          else (case json_body response of Inl e \<Rightarrow> None | Inr ms \<Rightarrow> Some ms))"

text \<open>
  The invariant of the data model, against a set of conversation identifiers: the message
  belongs to one of them. The type of \<open>role\<close> has the two values and no other, so the
  other half of the invariant needs no predicate; the code never checks either half of a
  message it parses (lines 78, 545 and 603).
\<close>

definition belongs :: "int set \<Rightarrow> Message \<Rightarrow> bool" where
  "belongs ids m = (conversation_id m \<in> ids)"

text \<open>The invariant of a whole state, against the identifiers \<open>ids\<close> of the conversations
  that exist: every message of the thread belongs to a conversation of \<open>allowed\<close>, and
  the listed and the selected conversations exist.\<close>

definition state_ok :: "int set \<Rightarrow> int set \<Rightarrow> 'a app_state_scheme \<Rightarrow> bool" where
  "state_ok ids allowed s =
     ((\<forall>m\<in>set (messages s). belongs allowed m)
      \<and> (\<forall>c\<in>set (conversations s). conv_id c \<in> ids)
      \<and> (\<forall>c. currentConversation s = Some c \<longrightarrow> conv_id c \<in> ids))"




text \<open>The thread of the second variant just before the reply or the error message is
  appended to it (lines 603 and 615).\<close>

definition thread_before_answer :: "backend \<Rightarrow> app_state \<Rightarrow> Message list" where
  "thread_before_answer env s =
     (case pending_selection env of
        None \<Rightarrow> messages s @ [tempUserMessage env (input s) (currentConversation s)]
      | Some messagesData \<Rightarrow> messagesData)"

section \<open>Concrete backends and states\<close>

definition conv7 :: Conversation where
  "conv7 = \<lparr>conv_id = 7, title = lit ''Conversation'',
            conv_created_at = lit ''2024-05-01T10:00:00''\<rparr>"

definition old_msg :: Message where
  "old_msg = \<lparr>msg_id = 1, role = Assistant, content = lit ''earlier'',
              conversation_id = 7, created_at = lit ''2024-05-01T10:00:05''\<rparr>"

definition reply :: Message where
  "reply = \<lparr>msg_id = 2, role = Assistant, content = lit ''hello'',
            conversation_id = 7, created_at = lit ''2024-05-01T10:01:00''\<rparr>"

text \<open>A backend where every request succeeds.\<close>

definition backend_up :: backend where
  "backend_up =
     \<lparr>get_conversations = Inr (Response True 200 (Inr []) (Inr [conv7])),
      get_messages = (\<lambda>i. Inr (Response True 200 (Inr []) (Inr [old_msg, reply]))),
      post_conversation = (\<lambda>t. Inr (Response True 201 (Inr []) (Inr conv7))),
      post_message = (\<lambda>i c. Inr (Response True 201 (Inr []) (Inr reply))),
      date_now = 1714557660000,
      date_iso = lit ''2024-05-01T10:01:00.000Z'',
      date_now_catch = 1714557661000,
      date_iso_catch = lit ''2024-05-01T10:01:01.000Z'',
      refresh_delay = 0,
      pending_selection = None\<rparr>"

text \<open>The same backend, answering 500 to every message that is posted.\<close>

definition backend_send_500 :: backend where
  "backend_send_500 =
     backend_up\<lparr>post_message :=
       (\<lambda>i c. Inr (Response False 500 (Inr (lit ''boom''))
                     (Inl (JsError (lit ''Unexpected token'')))))\<rparr>"

text \<open>The same backend, answering 500 with the body \<open>[]\<close> when the messages of a
  conversation are asked for.\<close>

definition backend_get_500 :: backend where
  "backend_get_500 =
     backend_up\<lparr>get_messages := (\<lambda>i. Inr (Response False 500 (Inr (lit ''[]'')) (Inr [])))\<rparr>"

text \<open>The same backend, not reachable when the messages of a conversation are asked
  for.\<close>

definition backend_get_down :: backend where
  "backend_get_down =
     backend_up\<lparr>get_messages := (\<lambda>i. Inl (JsError (lit ''Failed to fetch'')))\<rparr>"

text \<open>The backend that answers 500 to every posted message, and answers 500 with a
  body that parses to the creation of a conversation.\<close>

definition backend_create_500 :: backend where
  "backend_create_500 =
     backend_send_500\<lparr>post_conversation :=
       (\<lambda>t. Inr (Response False 500 (Inr (lit ''boom'')) (Inr conv7)))\<rparr>"

text \<open>The backend that rejects the creation of a conversation.\<close>

definition backend_create_down :: backend where
  "backend_create_down =
     backend_up\<lparr>post_conversation := (\<lambda>t. Inl (JsError (lit ''Failed to fetch'')))\<rparr>"

text \<open>The backend where every request succeeds, while the answer \<open>[reply]\<close> to an
  earlier selection is still on its way.\<close>

definition backend_pending :: backend where
  "backend_pending = backend_up\<lparr>pending_selection := Some [reply]\<rparr>"

text \<open>Conversation 7 selected, one message shown, \<open>hi\<close> typed; and nothing selected,
  nothing shown, \<open>hi\<close> typed.\<close>

definition chatting2 :: app_state where
  "chatting2 = \<lparr>messages = [old_msg], input = lit ''hi'', conversations = [conv7],
                currentConversation = Some conv7, isLoading = False\<rparr>"

definition chatting1 :: app_state1 where
  "chatting1 = \<lparr>messages = [old_msg], input = lit ''hi'', conversations = [conv7],
                currentConversation = Some conv7, isLoading = False,
                pendingUserInput = [], error = []\<rparr>"

definition fresh2 :: app_state where
  "fresh2 = \<lparr>messages = [], input = lit ''hi'', conversations = [],
             currentConversation = None, isLoading = False\<rparr>"

definition fresh1 :: app_state1 where
  "fresh1 = \<lparr>messages = [], input = lit ''hi'', conversations = [],
             currentConversation = None, isLoading = False,
             pendingUserInput = [], error = []\<rparr>"

section \<open>Auxiliary facts\<close>

lemma trim_Nil_iff: "trim s = [] \<longleftrightarrow> (\<forall>c\<in>set s. is_ws c)"
proof
  assume "trim s = []"
  then have "\<forall>c\<in>set (dropWhile is_ws s). is_ws c"
    by (simp add: trim_def)
  then have "dropWhile is_ws s = []"
    using hd_dropWhile [of is_ws s] by (cases "dropWhile is_ws s") auto
  then show "\<forall>c\<in>set s. is_ws c"
    by simp
next
  assume "\<forall>c\<in>set s. is_ws c"
  then show "trim s = []"
    by (auto simp: trim_def dest: set_dropWhileD)
qed

lemma trim_hi: "trim (lit ''hi'') \<noteq> []"
  by (simp add: trim_def lit_def is_ws_def)

subsection \<open>The events of each call\<close>

lemma snd_createMessage:
  "snd (createMessage env c t) = [Sent (PostMessage c t), Settled (PostMessage c t)]"
  by (simp add: createMessage_def)

lemma snd_createConversation:
  "snd (createConversation env t) = [Sent (PostConversation t), Settled (PostConversation t)]"
  by (simp add: createConversation_def)

lemma snd_fetchConversations:
  "snd (fetchConversations env s) = [Sent ListConversations, Settled ListConversations]"
  by (simp add: fetchConversations_def)

lemma snd_fetchMessages:
  "snd (fetchMessages env c s) =
     [SetLoading True, Sent (GetMessages c), Settled (GetMessages c), SetLoading False]"
  by (simp add: fetchMessages_def Let_def)

lemma events_post1:
  "snd (snd (handleSend1_post env c t s)) =
     (if isl (fst (createMessage env c t))
      then [Sent (PostMessage c t), Settled (PostMessage c t)]
      else [Sent (PostMessage c t), Settled (PostMessage c t),
            SetLoading True, Sent (GetMessages c), Settled (GetMessages c), SetLoading False])"
  by (simp add: handleSend1_post_def case_prod_beta snd_createMessage snd_fetchMessages
      split: sum.splits)

lemma events_post2:
  "snd (snd (handleSend2_post env c t s)) = [Sent (PostMessage c t), Settled (PostMessage c t)]"
  by (simp add: handleSend2_post_def case_prod_beta snd_createMessage split: sum.splits)

lemma events_try1:
  "snd (snd (handleSend1_try env t cur s)) =
     (case cur of
        Some c \<Rightarrow> snd (snd (handleSend1_post env (conv_id c) t s))
      | None \<Rightarrow>
          (case fst (createConversation env (take 50 t)) of
             Inl e \<Rightarrow> [Sent (PostConversation (take 50 t)), Settled (PostConversation (take 50 t))]
           | Inr nc \<Rightarrow>
               [Sent (PostConversation (take 50 t)), Settled (PostConversation (take 50 t))]
               @ unawaited (refresh_delay env) [Sent ListConversations, Settled ListConversations]
                   (snd (snd (handleSend1_post env (conv_id nc) t
                      (fst (fetchConversations env (s\<lparr>currentConversation := Some nc\<rparr>))))))))"
  by (simp add: handleSend1_try_def case_prod_beta snd_createConversation snd_fetchConversations
      split: option.splits sum.splits)

lemma events_try2:
  "snd (snd (handleSend2_try env t cur s)) =
     (case cur of
        Some c \<Rightarrow> snd (snd (handleSend2_post env (conv_id c) t s))
      | None \<Rightarrow>
          (case fst (createConversation env (lit ''Conversation'')) of
             Inl e \<Rightarrow> [Sent (PostConversation (lit ''Conversation'')),
                       Settled (PostConversation (lit ''Conversation''))]
           | Inr nc \<Rightarrow>
               [Sent (PostConversation (lit ''Conversation'')),
                Settled (PostConversation (lit ''Conversation''))]
               @ unawaited (refresh_delay env) [Sent ListConversations, Settled ListConversations]
                   (snd (snd (handleSend2_post env (conv_id nc) t
                      (fst (fetchConversations env (s\<lparr>currentConversation := Some nc\<rparr>))))))))"
  by (simp add: handleSend2_try_def case_prod_beta snd_createConversation snd_fetchConversations
      split: option.splits sum.splits)

lemma events_send1:
  "snd (handleSend1 env s) =
     (if trim (input s) = [] \<or> isLoading s then []
      else SetLoading True
           # snd (snd (handleSend1_try env (input s) (currentConversation s) (handleSend1_begin s)))
           @ [SetLoading False])"
  by (simp add: handleSend1_def case_prod_beta Let_def)

lemma events_send2:
  "snd (handleSend2 env s) =
     (if trim (input s) = [] \<or> isLoading s then []
      else SetLoading True
           # snd (snd (handleSend2_try env (input s) (currentConversation s)
                         (land_selection env (handleSend2_begin env s))))
           @ [SetLoading False])"
  by (simp add: handleSend2_def case_prod_beta Let_def)

subsection \<open>The state after each call\<close>

lemma fetchMessages_fields:
  "input (fst (fetchMessages env c s)) = input s"
  "currentConversation (fst (fetchMessages env c s)) = currentConversation s"
  "conversations (fst (fetchMessages env c s)) = conversations s"
  "isLoading (fst (fetchMessages env c s)) = False"
  "messages (fst (fetchMessages env c s)) =
     (case accepted_thread env c of None \<Rightarrow> messages s | Some ms \<Rightarrow> ms)"
  by (simp_all add: fetchMessages_def accepted_thread_def Let_def split: sum.splits)

lemma fetchConversations_fields:
  "input (fst (fetchConversations env s)) = input s"
  "currentConversation (fst (fetchConversations env s)) = currentConversation s"
  "messages (fst (fetchConversations env s)) = messages s"
  "isLoading (fst (fetchConversations env s)) = isLoading s"
  by (simp_all add: fetchConversations_def split: sum.splits)

lemma post1_fields:
  "isl (fst (handleSend1_post env c t s)) = isl (fst (createMessage env c t))"
  "input (fst (snd (handleSend1_post env c t s))) = input s"
  "currentConversation (fst (snd (handleSend1_post env c t s))) = currentConversation s"
  "messages (fst (snd (handleSend1_post env c t s))) =
     (case fst (createMessage env c t) of
        Inl e \<Rightarrow> messages s
      | Inr ai \<Rightarrow> (case accepted_thread env c of None \<Rightarrow> messages s | Some ms \<Rightarrow> ms))"
  by (simp_all add: handleSend1_post_def case_prod_beta fetchMessages_fields split: sum.splits)

lemma post2_fields:
  "isl (fst (handleSend2_post env c t s)) = isl (fst (createMessage env c t))"
  "input (fst (snd (handleSend2_post env c t s))) = input s"
  "currentConversation (fst (snd (handleSend2_post env c t s))) = currentConversation s"
  "messages (fst (snd (handleSend2_post env c t s))) =
     (case fst (createMessage env c t) of
        Inl e \<Rightarrow> messages s
      | Inr ai \<Rightarrow> messages s @ [ai])"
  by (simp_all add: handleSend2_post_def case_prod_beta split: sum.splits)

lemma try1_fields:
  "isl (fst (handleSend1_try env t cur s)) = send_fails env (take 50 t) cur t"
  "input (fst (snd (handleSend1_try env t cur s))) = input s"
  "currentConversation s = cur \<Longrightarrow>
     currentConversation (fst (snd (handleSend1_try env t cur s))) = send_target env (take 50 t) cur"
  "messages (fst (snd (handleSend1_try env t cur s))) =
     (case send_target env (take 50 t) cur of
        None \<Rightarrow> messages s
      | Some c \<Rightarrow>
          (case fst (createMessage env (conv_id c) t) of
             Inl e \<Rightarrow> messages s
           | Inr ai \<Rightarrow> (case accepted_thread env (conv_id c) of None \<Rightarrow> messages s | Some ms \<Rightarrow> ms)))"
  by (auto simp: handleSend1_try_def send_fails_def send_target_def case_prod_beta
        post1_fields fetchConversations_fields split: option.splits sum.splits)

lemma try2_fields:
  "isl (fst (handleSend2_try env t cur s)) = send_fails env (lit ''Conversation'') cur t"
  "input (fst (snd (handleSend2_try env t cur s))) = input s"
  "currentConversation s = cur \<Longrightarrow>
     currentConversation (fst (snd (handleSend2_try env t cur s)))
       = send_target env (lit ''Conversation'') cur"
  "messages (fst (snd (handleSend2_try env t cur s))) =
     (case send_target env (lit ''Conversation'') cur of
        None \<Rightarrow> messages s
      | Some c \<Rightarrow>
          (case fst (createMessage env (conv_id c) t) of
             Inl e \<Rightarrow> messages s
           | Inr ai \<Rightarrow> messages s @ [ai]))"
  by (auto simp: handleSend2_try_def send_fails_def send_target_def case_prod_beta
        post2_fields fetchConversations_fields split: option.splits sum.splits)

lemma land_selection_fields:
  "input (land_selection env s) = input s"
  "currentConversation (land_selection env s) = currentConversation s"
  "isLoading (land_selection env s) = isLoading s"
  "conversations (land_selection env s) = conversations s"
  "messages (land_selection env (handleSend2_begin env s)) = thread_before_answer env s"
  by (simp_all add: land_selection_def thread_before_answer_def handleSend2_begin_def
      split: option.splits)

lemma send1_fields:
  assumes "trim (input s) \<noteq> []" and "\<not> isLoading s"
  shows "input (fst (handleSend1 env s)) =
           (if send_fails env (take 50 (input s)) (currentConversation s) (input s)
            then input s else [])"
    and "currentConversation (fst (handleSend1 env s)) =
           send_target env (take 50 (input s)) (currentConversation s)"
    and "isLoading (fst (handleSend1 env s)) = False"
    and "messages (fst (handleSend1 env s)) =
           messages (fst (snd (handleSend1_try env (input s) (currentConversation s)
                                 (handleSend1_begin s))))"
  using assms try1_fields(1) [of env "input s" "currentConversation s" "handleSend1_begin s"]
  by (auto simp: handleSend1_def case_prod_beta Let_def try1_fields(2,3) handleSend1_begin_def
      split: sum.splits)

lemma send2_fields:
  assumes "trim (input s) \<noteq> []" and "\<not> isLoading s"
  shows "input (fst (handleSend2 env s)) = []"
    and "currentConversation (fst (handleSend2 env s)) =
           send_target env (lit ''Conversation'') (currentConversation s)"
    and "isLoading (fst (handleSend2 env s)) = False"
  using assms
  by (auto simp: handleSend2_def case_prod_beta Let_def try2_fields(2,3) land_selection_fields
      handleSend2_begin_def split: sum.splits)

lemma send2_thread_failed:
  assumes "trim (input s) \<noteq> []" and "\<not> isLoading s"
    and "send_fails env (lit ''Conversation'') (currentConversation s) (input s)"
  shows "\<exists>e. messages (fst (handleSend2 env s))
              = thread_before_answer env s @ [errorMessage env e (currentConversation s)]"
proof -
  let ?r = "handleSend2_try env (input s) (currentConversation s)
              (land_selection env (handleSend2_begin env s))"
  have "isl (fst ?r)"
    using assms(3) by (simp add: try2_fields(1))
  then obtain er where er: "fst ?r = Inl er"
    by (cases "fst ?r") auto
  have "messages (fst (snd ?r)) = thread_before_answer env s"
    using assms(3)
    by (auto simp: try2_fields(4) land_selection_fields send_fails_def
        split: option.splits sum.splits)
  then have "messages (fst (handleSend2 env s))
              = thread_before_answer env s @ [errorMessage env er (currentConversation s)]"
    using assms(1,2) er by (simp add: handleSend2_def case_prod_beta Let_def)
  then show ?thesis ..
qed

lemma send2_thread_posted:
  assumes "trim (input s) \<noteq> []" and "\<not> isLoading s"
    and "send_target env (lit ''Conversation'') (currentConversation s) = Some c"
    and "fst (createMessage env (conv_id c) (input s)) = Inr ai"
  shows "messages (fst (handleSend2 env s)) = thread_before_answer env s @ [ai]"
proof -
  let ?r = "handleSend2_try env (input s) (currentConversation s)
              (land_selection env (handleSend2_begin env s))"
  have "\<not> isl (fst ?r)"
    using assms(3,4) by (simp add: try2_fields(1) send_fails_def)
  then obtain u where u: "fst ?r = Inr u"
    by (cases "fst ?r") auto
  have "messages (fst (snd ?r)) = thread_before_answer env s @ [ai]"
    using assms(3,4) by (simp add: try2_fields(4) land_selection_fields)
  then show ?thesis
    using assms(1,2) u by (simp add: handleSend2_def case_prod_beta Let_def)
qed

subsection \<open>Requests in flight\<close>

lemma filter_unawaited:
  "\<forall>e\<in>set a. \<not> P e \<Longrightarrow> filter P (unawaited k a rest) = filter P rest"
proof (cases a)
  case Nil
  then show ?thesis by simp
next
  case (Cons e es)
  assume "\<forall>e\<in>set a. \<not> P e"
  with Cons have "\<not> P e" and "filter P es = []" by auto
  moreover have "filter P (take (Suc k) rest) @ filter P (drop (Suc k) rest) = filter P rest"
    by (simp flip: filter_append)
  ultimately show ?thesis using Cons by simp
qed

lemma peak_snoc_loading: "peak n (es @ [SetLoading b]) = peak n es"
proof (induction es arbitrary: n)
  case Nil
  show ?case by simp
next
  case (Cons e es)
  then show ?case by (cases e) simp_all
qed

lemma peak_unawaited2:
  "peak 0 (unawaited k [Sent a, Settled a] [Sent b, Settled b]) = 2"
  by (cases k) (simp_all add: numeral_2_eq_2)

lemma peak_unawaited6:
  "peak 0 (unawaited k [Sent a, Settled a]
             [Sent b, Settled b, SetLoading l, Sent c, Settled c, SetLoading l']) = 2"
proof -
  consider "k = 0" | "k = 1" | "k = 2" | "k = 3" | "k = 4" | "k \<ge> 5" by linarith
  then show ?thesis
  proof cases
    case 1 then show ?thesis by (simp add: numeral_2_eq_2)
  next
    case 2 then show ?thesis by (simp add: numeral_2_eq_2)
  next
    case 3 then show ?thesis by (simp add: numeral_2_eq_2 numeral_3_eq_3)
  next
    case 4 then show ?thesis by (simp add: numeral_2_eq_2 numeral_3_eq_3)
  next
    case 5 then show ?thesis by (simp add: numeral_2_eq_2 numeral_3_eq_3 eval_nat_numeral)
  next
    case 6
    then have "take (Suc k) [Sent b, Settled b, SetLoading l, Sent c, Settled c, SetLoading l']
                 = [Sent b, Settled b, SetLoading l, Sent c, Settled c, SetLoading l']"
      and "drop (Suc k) [Sent b, Settled b, SetLoading l, Sent c, Settled c, SetLoading l'] = []"
      by simp_all
    then show ?thesis
      unfolding unawaited.simps by (simp add: numeral_2_eq_2)
  qed
qed

lemma peak_send1:
  "peak 0 (snd (handleSend1 env s)) =
     (if trim (input s) = [] \<or> isLoading s then 0
      else if currentConversation s = None
              \<and> \<not> isl (fst (createConversation env (take 50 (input s)))) then 2
      else 1)"
  by (simp add: events_send1 events_try1 events_post1 peak_unawaited2 peak_unawaited6
      peak_snoc_loading del: unawaited.simps split: option.splits sum.splits)

lemma peak_send2:
  "peak 0 (snd (handleSend2 env s)) =
     (if trim (input s) = [] \<or> isLoading s then 0
      else if currentConversation s = None
              \<and> \<not> isl (fst (createConversation env (lit ''Conversation''))) then 2
      else 1)"
  by (simp add: events_send2 events_try2 events_post2 peak_unawaited2 peak_snoc_loading
      del: unawaited.simps split: option.splits sum.splits)

lemma awaited_send1:
  "peak 0 (filter (\<lambda>e. \<not> is_refresh e) (snd (handleSend1 env s))) =
     (if trim (input s) = [] \<or> isLoading s then 0 else 1)"
  by (simp add: events_send1 events_try1 events_post1 filter_unawaited is_refresh_def
      del: unawaited.simps split: option.splits sum.splits)

lemma awaited_send2:
  "peak 0 (filter (\<lambda>e. \<not> is_refresh e) (snd (handleSend2 env s))) =
     (if trim (input s) = [] \<or> isLoading s then 0 else 1)"
  by (simp add: events_send2 events_try2 events_post2 filter_unawaited is_refresh_def
      del: unawaited.simps split: option.splits sum.splits)

subsection \<open>The loading flag\<close>










subsection \<open>Evaluation and the invariant\<close>

lemmas handler_defs =
  handleSend1_def handleSend1_try_def handleSend1_post_def handleSend1_begin_def
  handleSend2_def handleSend2_try_def handleSend2_post_def handleSend2_begin_def
  land_selection_def
  handleConversationClick1_def handleConversationClick2_def fetchMessages_def
  fetchConversations_def createConversation_def createMessage_def
  tempUserMessage_def errorMessage_def id_or_zero_def

lemmas example_defs =
  backend_up_def backend_send_500_def backend_get_500_def backend_get_down_def
  backend_create_500_def backend_create_down_def backend_pending_def
  chatting1_def chatting2_def fresh1_def fresh2_def conv7_def old_msg_def reply_def




lemma state_ok_thread:
  "state_ok ids A s \<Longrightarrow> \<forall>m\<in>set ms. belongs A m \<Longrightarrow> state_ok ids A (s\<lparr>messages := ms\<rparr>)"
  by (simp add: state_ok_def)




















subsection \<open>Titles and literals\<close>

lemma created_titles_simps:
  "created_titles [] = []"
  "created_titles (Sent (PostConversation t) # es) = t # created_titles es"
  "created_titles (Sent ListConversations # es) = created_titles es"
  "created_titles (Sent (GetMessages i) # es) = created_titles es"
  "created_titles (Sent (PostMessage i c) # es) = created_titles es"
  "created_titles (Settled r # es) = created_titles es"
  "created_titles (SetLoading b # es) = created_titles es"
  "created_titles (xs @ ys) = created_titles xs @ created_titles ys"
  by (simp_all add: created_titles_def)

lemma created_titles_unawaited:
  "created_titles (unawaited k [Sent ListConversations, Settled ListConversations] rest)
     = created_titles rest"
proof -
  have "created_titles (take (Suc k) rest) @ created_titles (drop (Suc k) rest)
          = created_titles rest"
    by (simp flip: created_titles_simps(8))
  then show ?thesis
    by (simp add: created_titles_simps)
qed

lemma take50_hi: "take 50 (lit ''hi'') = lit ''hi''"
  by (simp add: lit_def)

section \<open>Claims\<close>

subsection \<open>C1: a send that fails\<close>

text \<open>
  C1 says that every failed send restores the input and leaves the selection as it was,
  in both variants. Two sends against a backend that answers 500 to the posted message
  show otherwise. In the first variant, with nothing selected, the conversation is created
  before the message is posted, and it stays selected after the failure. In the second
  variant the input is not restored.
\<close>

theorem failed_send_counterexample:
  "send_fails backend_send_500 (take 50 (input fresh1)) (currentConversation fresh1) (input fresh1)
   \<and> currentConversation fresh1 = None
   \<and> currentConversation (fst (handleSend1 backend_send_500 fresh1)) = Some conv7
   \<and> send_fails backend_send_500 (lit ''Conversation'') (currentConversation chatting2)
         (input chatting2)
   \<and> input chatting2 \<noteq> []
   \<and> input (fst (handleSend2 backend_send_500 chatting2)) = []"
  using send1_fields(2) [of fresh1 backend_send_500] send2_fields(1) [of chatting2 backend_send_500]
    trim_hi
  by (simp add: fresh1_def chatting2_def send_fails_def send_target_def createConversation_def
      createMessage_def backend_send_500_def backend_up_def take50_hi lit_def)

text \<open>
  C1, amended. After a send in which \<open>createConversation\<close> or \<open>createMessage\<close> throws,
  the selected conversation is the one the message was to be posted to: the conversation
  selected before the send when there was one; else what \<open>createConversation\<close> returned
  (it does not read the status, so the parsed body of an error answer is selected as well);
  and still none when \<open>createConversation\<close> threw. The first variant restores the input
  to the text that was submitted. The second variant leaves the input empty and appends an
  error message to the thread as it is then: the earlier thread with the user's message,
  or what a selection that was pending wrote during the send.
\<close>

theorem failed_send:
  fixes s1 :: app_state1 and s2 :: app_state
  assumes "trim (input s1) \<noteq> []" and "\<not> isLoading s1"
    and "send_fails env1 (take 50 (input s1)) (currentConversation s1) (input s1)"
    and "trim (input s2) \<noteq> []" and "\<not> isLoading s2"
    and "send_fails env2 (lit ''Conversation'') (currentConversation s2) (input s2)"
  shows "input (fst (handleSend1 env1 s1)) = input s1
       \<and> currentConversation (fst (handleSend1 env1 s1))
           = send_target env1 (take 50 (input s1)) (currentConversation s1)
       \<and> (currentConversation s1 \<noteq> None
            \<longrightarrow> currentConversation (fst (handleSend1 env1 s1)) = currentConversation s1)
       \<and> input (fst (handleSend2 env2 s2)) = []
       \<and> currentConversation (fst (handleSend2 env2 s2))
           = send_target env2 (lit ''Conversation'') (currentConversation s2)
       \<and> (currentConversation s2 \<noteq> None
            \<longrightarrow> currentConversation (fst (handleSend2 env2 s2)) = currentConversation s2)
       \<and> (\<exists>e. messages (fst (handleSend2 env2 s2))
                 = thread_before_answer env2 s2 @ [errorMessage env2 e (currentConversation s2)])"
proof -
  have a: "input (fst (handleSend1 env1 s1)) = input s1"
    using assms(1-3) by (simp add: send1_fields(1))
  have b: "currentConversation (fst (handleSend1 env1 s1))
           = send_target env1 (take 50 (input s1)) (currentConversation s1)"
    using assms(1,2) by (rule send1_fields(2))
  have c: "currentConversation s1 \<noteq> None
            \<longrightarrow> currentConversation (fst (handleSend1 env1 s1)) = currentConversation s1"
    by (auto simp: b send_target_def)
  have d: "input (fst (handleSend2 env2 s2)) = []"
    using assms(4,5) by (rule send2_fields(1))
  have e: "currentConversation (fst (handleSend2 env2 s2))
           = send_target env2 (lit ''Conversation'') (currentConversation s2)"
    using assms(4,5) by (rule send2_fields(2))
  have f: "currentConversation s2 \<noteq> None
            \<longrightarrow> currentConversation (fst (handleSend2 env2 s2)) = currentConversation s2"
    by (auto simp: e send_target_def)
  have g: "\<exists>e. messages (fst (handleSend2 env2 s2))
                 = thread_before_answer env2 s2 @ [errorMessage env2 e (currentConversation s2)]"
    using assms(4-6) by (rule send2_thread_failed)
  from a b c d e f g show ?thesis by blast
qed

theorem failed_send_witness:
  "input (fst (handleSend1 backend_send_500 chatting1)) = lit ''hi''
   \<and> currentConversation (fst (handleSend1 backend_send_500 chatting1)) = Some conv7
   \<and> input (fst (handleSend2 backend_send_500 chatting2)) = []
   \<and> currentConversation (fst (handleSend2 backend_send_500 chatting2)) = Some conv7
   \<and> input (fst (handleSend1 backend_create_500 fresh1)) = lit ''hi''
   \<and> currentConversation (fst (handleSend1 backend_create_500 fresh1)) = Some conv7
   \<and> input (fst (handleSend2 backend_create_down fresh2)) = []
   \<and> currentConversation (fst (handleSend2 backend_create_down fresh2)) = None"
  using failed_send [of chatting1 backend_send_500 chatting2 backend_send_500]
    failed_send [of fresh1 backend_create_500 fresh2 backend_create_down] trim_hi
  by (simp add: chatting1_def chatting2_def fresh1_def fresh2_def send_fails_def send_target_def
      createMessage_def createConversation_def backend_send_500_def backend_create_500_def
      backend_create_down_def backend_up_def)

subsection \<open>C2: a fetch of messages that is answered with an error status\<close>

text \<open>
  C2 says that fetching the messages of a conversation fails visibly whenever the status of
  the response is not successful, on every path of both variants. The second variant,
  asked to select conversation 7 while the backend answers 500 with the body \<open>[]\<close>,
  replaces the thread by that body, exactly as for a successful response. The first
  variant, at the same input, keeps the thread and sets its error string.
\<close>

theorem click2_ignores_status:
  "get_messages backend_get_500 7 = Inr (Response False 500 (Inr (lit ''[]'')) (Inr []))
   \<and> messages chatting2 = [old_msg]
   \<and> handleConversationClick2 backend_get_500 7 chatting2
       = (chatting2\<lparr>messages := []\<rparr>, [Sent (GetMessages 7), Settled (GetMessages 7)])
   \<and> messages (fst (handleConversationClick1 backend_get_500 7 chatting1)) = [old_msg]
   \<and> error (fst (handleConversationClick1 backend_get_500 7 chatting1))
       = lit ''Failed to load messages''"
  by (simp add: handler_defs example_defs Let_def)

subsection \<open>C3: requests in flight\<close>

text \<open>
  C3 says that no two requests of a send are in flight at the same time. With nothing
  selected, both variants call \<open>fetchConversations\<close> without awaiting it and then post
  the message at once: the request for the conversation list and the posted message are
  in flight together.
\<close>

theorem overlap_counterexample:
  "snd (handleSend1 backend_up fresh1) =
     [SetLoading True,
      Sent (PostConversation (lit ''hi'')), Settled (PostConversation (lit ''hi'')),
      Sent ListConversations, Sent (PostMessage 7 (lit ''hi'')), Settled ListConversations,
      Settled (PostMessage 7 (lit ''hi'')),
      SetLoading True, Sent (GetMessages 7), Settled (GetMessages 7), SetLoading False,
      SetLoading False]
   \<and> peak 0 (snd (handleSend1 backend_up fresh1)) = 2
   \<and> snd (handleSend2 backend_up fresh2) =
     [SetLoading True,
      Sent (PostConversation (lit ''Conversation'')), Settled (PostConversation (lit ''Conversation'')),
      Sent ListConversations, Sent (PostMessage 7 (lit ''hi'')), Settled ListConversations,
      Settled (PostMessage 7 (lit ''hi'')),
      SetLoading False]
   \<and> peak 0 (snd (handleSend2 backend_up fresh2)) = 2"
  using trim_hi
  by (simp add: events_send1 events_try1 events_post1 events_send2 events_try2 events_post2
      fresh1_def fresh2_def backend_up_def createConversation_def createMessage_def conv7_def
      numeral_2_eq_2 take50_hi)

text \<open>
  C3, amended. A send that the guard stops sends nothing. For any other send: the requests
  it awaits (create the conversation, post the message, fetch the thread again) are
  strictly sequential, so with the refresh of the conversation list left aside exactly one
  request is in flight at the busiest moment. With a conversation selected, or when
  \<open>createConversation\<close> throws, the same holds of all requests. With nothing selected
  and \<open>createConversation\<close> returning, the refresh is sent and the message is posted
  right after it, before either settles: the two are in flight together, and two is the
  most that ever are.
\<close>

theorem requests_in_flight:
  fixes s1 :: app_state1 and s2 :: app_state
  shows "peak 0 (filter (\<lambda>e. \<not> is_refresh e) (snd (handleSend1 env1 s1)))
           = (if trim (input s1) = [] \<or> isLoading s1 then 0 else 1)
       \<and> peak 0 (filter (\<lambda>e. \<not> is_refresh e) (snd (handleSend2 env2 s2)))
           = (if trim (input s2) = [] \<or> isLoading s2 then 0 else 1)
       \<and> peak 0 (snd (handleSend1 env1 s1))
           = (if trim (input s1) = [] \<or> isLoading s1 then 0
              else if currentConversation s1 = None
                      \<and> \<not> isl (fst (createConversation env1 (take 50 (input s1)))) then 2
              else 1)
       \<and> peak 0 (snd (handleSend2 env2 s2))
           = (if trim (input s2) = [] \<or> isLoading s2 then 0
              else if currentConversation s2 = None
                      \<and> \<not> isl (fst (createConversation env2 (lit ''Conversation''))) then 2
              else 1)
       \<and> (trim (input s1) \<noteq> [] \<and> \<not> isLoading s1 \<and> currentConversation s1 = None
            \<and> fst (createConversation env1 (take 50 (input s1))) = Inr nc1
          \<longrightarrow> take 5 (snd (handleSend1 env1 s1))
                = [SetLoading True,
                   Sent (PostConversation (take 50 (input s1))),
                   Settled (PostConversation (take 50 (input s1))),
                   Sent ListConversations,
                   Sent (PostMessage (conv_id nc1) (input s1))])
       \<and> (trim (input s2) \<noteq> [] \<and> \<not> isLoading s2 \<and> currentConversation s2 = None
            \<and> fst (createConversation env2 (lit ''Conversation'')) = Inr nc2
          \<longrightarrow> take 5 (snd (handleSend2 env2 s2))
                = [SetLoading True,
                   Sent (PostConversation (lit ''Conversation'')),
                   Settled (PostConversation (lit ''Conversation'')),
                   Sent ListConversations,
                   Sent (PostMessage (conv_id nc2) (input s2))])"
proof -
  have a: "trim (input s1) \<noteq> [] \<and> \<not> isLoading s1 \<and> currentConversation s1 = None
            \<and> fst (createConversation env1 (take 50 (input s1))) = Inr nc1
          \<longrightarrow> take 5 (snd (handleSend1 env1 s1))
                = [SetLoading True,
                   Sent (PostConversation (take 50 (input s1))),
                   Settled (PostConversation (take 50 (input s1))),
                   Sent ListConversations,
                   Sent (PostMessage (conv_id nc1) (input s1))]"
    by (simp add: events_send1 events_try1 events_post1 eval_nat_numeral)
  have b: "trim (input s2) \<noteq> [] \<and> \<not> isLoading s2 \<and> currentConversation s2 = None
            \<and> fst (createConversation env2 (lit ''Conversation'')) = Inr nc2
          \<longrightarrow> take 5 (snd (handleSend2 env2 s2))
                = [SetLoading True,
                   Sent (PostConversation (lit ''Conversation'')),
                   Settled (PostConversation (lit ''Conversation'')),
                   Sent ListConversations,
                   Sent (PostMessage (conv_id nc2) (input s2))]"
    by (simp add: events_send2 events_try2 events_post2 eval_nat_numeral)
  show ?thesis
    by (intro conjI) (rule awaited_send1 awaited_send2 peak_send1 peak_send2 a b)+
qed

theorem requests_in_flight_witness:
  "peak 0 (snd (handleSend1 backend_up chatting1)) = 1
   \<and> peak 0 (snd (handleSend2 backend_up chatting2)) = 1
   \<and> peak 0 (snd (handleSend1 backend_up fresh1)) = 2
   \<and> take 5 (snd (handleSend1 backend_up fresh1))
       = [SetLoading True, Sent (PostConversation (lit ''hi'')),
          Settled (PostConversation (lit ''hi'')), Sent ListConversations,
          Sent (PostMessage 7 (lit ''hi''))]
   \<and> peak 0 (snd (handleSend2 backend_up fresh2)) = 2
   \<and> take 5 (snd (handleSend2 backend_up fresh2))
       = [SetLoading True, Sent (PostConversation (lit ''Conversation'')),
          Settled (PostConversation (lit ''Conversation'')), Sent ListConversations,
          Sent (PostMessage 7 (lit ''hi''))]"
  using requests_in_flight [of backend_up chatting1 backend_up chatting2]
    requests_in_flight [of backend_up fresh1 backend_up fresh2 conv7 conv7] trim_hi
  by (simp add: chatting1_def chatting2_def fresh1_def fresh2_def createConversation_def
      backend_up_def conv7_def take50_hi)

subsection \<open>C4: the invariant of the messages\<close>




subsection \<open>C5: blank input\<close>

text \<open>
  C5. When the input is empty or holds only white space, \<open>handleSend\<close> of either variant,
  called from the button or through the Enter key, sends no request and returns the state
  it was given.
\<close>

theorem blank_input_sends_nothing:
  fixes s1 :: app_state1 and s2 :: app_state
  assumes "\<forall>c\<in>set (input s1). is_ws c" and "\<forall>c\<in>set (input s2). is_ws c"
  shows "handleSend1 env s1 = (s1, []) \<and> handleSend2 env s2 = (s2, [])
       \<and> handleKeyDown1 env key shiftKey s1 = (s1, [])
       \<and> handleKeyDown2 env key shiftKey s2 = (s2, [])"
  using assms
  by (simp add: handleSend1_def handleSend2_def handleKeyDown1_def handleKeyDown2_def trim_Nil_iff)

theorem blank_input_sends_nothing_witness:
  "handleSend1 backend_up (chatting1\<lparr>input := [0x20, 0x9, 0xA]\<rparr>)
     = (chatting1\<lparr>input := [0x20, 0x9, 0xA]\<rparr>, [])
   \<and> handleSend2 backend_up (fresh2\<lparr>input := []\<rparr>) = (fresh2\<lparr>input := []\<rparr>, [])
   \<and> handleKeyDown1 backend_up (lit ''Enter'') False (chatting1\<lparr>input := [0x20, 0x9, 0xA]\<rparr>)
     = (chatting1\<lparr>input := [0x20, 0x9, 0xA]\<rparr>, [])
   \<and> handleKeyDown2 backend_up (lit ''Enter'') False (fresh2\<lparr>input := []\<rparr>)
     = (fresh2\<lparr>input := []\<rparr>, [])"
  using blank_input_sends_nothing [of "chatting1\<lparr>input := [0x20, 0x9, 0xA]\<rparr>"
      "fresh2\<lparr>input := []\<rparr>" backend_up "lit ''Enter''" False]
  by (simp add: is_ws_def)

subsection \<open>C6: selecting a conversation\<close>

text \<open>
  C6 says that after a conversation is selected the thread is the sequence the backend
  returned, on every path. In the first variant a response with status 500 and the body
  \<open>[]\<close> leaves the old thread on display. In the second variant a request that is
  rejected leaves the old thread on display too.
\<close>

theorem click_counterexample:
  "get_messages backend_get_500 7 = Inr (Response False 500 (Inr (lit ''[]'')) (Inr []))
   \<and> messages (fst (handleConversationClick1 backend_get_500 7 chatting1)) = [old_msg]
   \<and> get_messages backend_get_down 7 = Inl (JsError (lit ''Failed to fetch''))
   \<and> messages (fst (handleConversationClick2 backend_get_down 7 chatting2)) = [old_msg]"
  by (simp add: handler_defs example_defs Let_def)

text \<open>
  C6, amended. When the backend answers with a successful status and a body that parses,
  the thread after the selection is exactly the returned sequence, in both variants. In
  the first variant every other path leaves the thread as it was.
\<close>

theorem click_shows_returned:
  fixes s1 :: app_state1 and s2 :: app_state
  shows "messages (fst (handleConversationClick1 env conversationId s1))
           = (case accepted_thread env conversationId of
                None \<Rightarrow> messages s1
              | Some ms \<Rightarrow> ms)
       \<and> (accepted_thread env conversationId = Some ms
            \<longrightarrow> messages (fst (handleConversationClick2 env conversationId s2)) = ms)"
  by (auto simp: handleConversationClick1_def handleConversationClick2_def fetchMessages_fields(5)
      accepted_thread_def split: sum.splits if_splits)

theorem click_shows_returned_witness:
  "accepted_thread backend_up 7 = Some [old_msg, reply]
   \<and> messages (fst (handleConversationClick1 backend_up 7 chatting1)) = [old_msg, reply]
   \<and> messages (fst (handleConversationClick2 backend_up 7 chatting2)) = [old_msg, reply]"
  using click_shows_returned [of backend_up 7 chatting1 "[old_msg, reply]" chatting2]
  by (simp add: accepted_thread_def backend_up_def)

subsection \<open>C7: the thread after a successful send\<close>

text \<open>
  C7 says that after every successful send the thread holds the new messages. In the first
  variant the thread is fetched again after the message is posted; when that fetch is
  answered with status 500 the thread stays as it was before the send, without the reply.
\<close>

theorem successful_send_counterexample:
  "\<not> send_fails backend_get_500 (take 50 (input chatting1)) (currentConversation chatting1) (input chatting1)
   \<and> fst (createMessage backend_get_500 7 (input chatting1)) = Inr reply
   \<and> messages chatting1 = [old_msg]
   \<and> messages (fst (handleSend1 backend_get_500 chatting1)) = [old_msg]
   \<and> reply \<noteq> old_msg"
  using trim_hi
  by (simp add: send_fails_def send_target_def handler_defs example_defs Let_def)

text \<open>
  C7, amended. After a send whose message is posted successfully, in the second variant
  the thread ends with the reply. When no selection was pending at the start of the send,
  the thread is the thread before the send followed by the user's message and the reply,
  so a message of the earlier thread occurs as often as before (once more for each of the
  two new messages it is equal to). When the answer to a pending selection arrives during
  the send, the thread is that answer followed by the reply, without the user's message.
  In the first variant no selection can be pending; the thread is exactly what the fetch
  after the post accepted, with nothing of the earlier thread added to it, and it is the
  thread before the send when that fetch fails.
\<close>

theorem successful_send_thread:
  fixes s1 :: app_state1 and s2 :: app_state
  assumes "trim (input s1) \<noteq> []" and "\<not> isLoading s1"
    and "send_target env1 (take 50 (input s1)) (currentConversation s1) = Some c1"
    and "fst (createMessage env1 (conv_id c1) (input s1)) = Inr ai1"
    and "trim (input s2) \<noteq> []" and "\<not> isLoading s2"
    and "send_target env2 (lit ''Conversation'') (currentConversation s2) = Some c2"
    and "fst (createMessage env2 (conv_id c2) (input s2)) = Inr ai2"
  shows "messages (fst (handleSend1 env1 s1))
           = (case accepted_thread env1 (conv_id c1) of None \<Rightarrow> messages s1 | Some ms \<Rightarrow> ms)
       \<and> messages (fst (handleSend2 env2 s2)) = thread_before_answer env2 s2 @ [ai2]
       \<and> (pending_selection env2 = None
            \<longrightarrow> messages (fst (handleSend2 env2 s2))
                  = messages s2 @ [tempUserMessage env2 (input s2) (currentConversation s2), ai2]
                \<and> count_list (messages (fst (handleSend2 env2 s2))) m
                  = count_list (messages s2) m
                    + (if m = tempUserMessage env2 (input s2) (currentConversation s2)
                       then 1 else 0)
                    + (if m = ai2 then 1 else 0))
       \<and> (pending_selection env2 = Some landed
            \<longrightarrow> messages (fst (handleSend2 env2 s2)) = landed @ [ai2])"
proof -
  have a: "messages (fst (handleSend1 env1 s1))
           = (case accepted_thread env1 (conv_id c1) of None \<Rightarrow> messages s1 | Some ms \<Rightarrow> ms)"
    using assms(1-4)
    by (simp add: send1_fields(4) try1_fields(4) handleSend1_begin_def split: option.splits)
  have b: "messages (fst (handleSend2 env2 s2)) = thread_before_answer env2 s2 @ [ai2]"
    using assms(5-8) by (rule send2_thread_posted)
  show ?thesis
    by (simp add: a b thread_before_answer_def)
qed

theorem successful_send_thread_witness:
  "messages (fst (handleSend1 backend_up chatting1)) = [old_msg, reply]
   \<and> messages (fst (handleSend2 backend_up chatting2))
       = [old_msg, tempUserMessage backend_up (lit ''hi'') (Some conv7), reply]
   \<and> count_list (messages (fst (handleSend2 backend_up chatting2))) old_msg = 1
   \<and> messages (fst (handleSend2 backend_pending chatting2)) = [reply, reply]"
proof -
  have g1: "trim (input chatting1) \<noteq> []" "\<not> isLoading chatting1"
    and g2: "trim (input chatting2) \<noteq> []" "\<not> isLoading chatting2"
    using trim_hi by (simp_all add: chatting1_def chatting2_def)
  have t1: "send_target backend_up (take 50 (input chatting1)) (currentConversation chatting1)
              = Some conv7"
    and t2: "send_target backend_up (lit ''Conversation'') (currentConversation chatting2)
              = Some conv7"
    and t3: "send_target backend_pending (lit ''Conversation'') (currentConversation chatting2)
              = Some conv7"
    by (simp_all add: send_target_def chatting1_def chatting2_def)
  have p1: "fst (createMessage backend_up (conv_id conv7) (input chatting1)) = Inr reply"
    and p2: "fst (createMessage backend_up (conv_id conv7) (input chatting2)) = Inr reply"
    and p3: "fst (createMessage backend_pending (conv_id conv7) (input chatting2)) = Inr reply"
    by (simp_all add: createMessage_def backend_up_def backend_pending_def)
  have n: "pending_selection backend_up = None"
    and l: "pending_selection backend_pending = Some [reply]"
    by (simp_all add: backend_up_def backend_pending_def)
  have o: "old_msg \<noteq> reply" "old_msg \<noteq> tempUserMessage backend_up (lit ''hi'') (Some conv7)"
    by (simp_all add: old_msg_def reply_def tempUserMessage_def)
  have "accepted_thread backend_up (conv_id conv7) = Some [old_msg, reply]"
    by (simp add: accepted_thread_def backend_up_def)
  then show ?thesis
    using successful_send_thread [OF g1 t1 p1 g2 t2 p2, of old_msg]
      successful_send_thread [OF g1 t1 p1 g2 t3 p3, of _ "[reply]"] n l o
    by (simp add: chatting2_def thread_before_answer_def)
qed

subsection \<open>C8: a new chat\<close>

text \<open>
  C8. In every state of either variant, \<open>handleNewChat\<close> leaves the thread empty, the
  input empty and no conversation selected.
\<close>

theorem new_chat_clears:
  fixes s1 :: app_state1 and s2 :: app_state
  shows "messages (handleNewChat s1) = [] \<and> input (handleNewChat s1) = []
       \<and> currentConversation (handleNewChat s1) = None
       \<and> messages (handleNewChat s2) = [] \<and> input (handleNewChat s2) = []
       \<and> currentConversation (handleNewChat s2) = None"
  by (simp add: handleNewChat_def)

subsection \<open>C9: idle and loading\<close>



subsection \<open>C10: the title of a created conversation\<close>

text \<open>
  C10. With no conversation selected, a send asks for exactly one conversation to be
  created: with the first 50 code units of the input as its title in the first variant,
  with the title \<open>Conversation\<close> in the second.
\<close>

theorem created_title:
  fixes s1 :: app_state1 and s2 :: app_state
  assumes "trim (input s1) \<noteq> []" and "\<not> isLoading s1" and "currentConversation s1 = None"
    and "trim (input s2) \<noteq> []" and "\<not> isLoading s2" and "currentConversation s2 = None"
  shows "created_titles (snd (handleSend1 env s1)) = [take 50 (input s1)]
       \<and> created_titles (snd (handleSend2 env s2)) = [lit ''Conversation'']"
  using assms
  by (simp add: events_send1 events_send2 events_try1 events_try2 events_post1 events_post2
      created_titles_simps created_titles_unawaited del: unawaited.simps split: sum.splits)

theorem created_title_witness:
  "created_titles (snd (handleSend1 backend_up (fresh1\<lparr>input := replicate 60 0x61\<rparr>)))
     = [replicate 50 0x61]
   \<and> created_titles (snd (handleSend2 backend_up fresh2)) = [lit ''Conversation'']"
  using created_title [of "fresh1\<lparr>input := replicate 60 0x61\<rparr>" fresh2 backend_up] trim_hi
  by (simp add: fresh1_def fresh2_def trim_def is_ws_def)

end
